theory Spec2Isabelle
  imports Main
begin

section \<open>Language registry (language.type.ts)\<close>

text \<open>
  JavaScript strings are modelled as \<^typ>\<open>string\<close>, holding the UTF-8 bytes of the text as
  the source file stores them. The only operations the service applies to strings are
  equality and concatenation, which this encoding preserves. The letters outside ASCII
  that occur in the source are written out as their two bytes. The catalogue file is
  present in two copies that differ only in how the two bytes \<open>C3 B1\<close> of the Spanish
  name are displayed; on the bytes they agree.
\<close>

definition n_tilde :: string where
  "n_tilde = [CHR 0xC3, CHR 0xB1]"

definition i_acute :: string where
  "i_acute = [CHR 0xC3, CHR 0xAD]"

definition a_acute :: string where
  "a_acute = [CHR 0xC3, CHR 0xA1]"

text \<open>
  The interfaces \<open>LanguageInput\<close> and \<open>LanguageOutput\<close> both have the fields \<open>id\<close> and
  \<open>name\<close>. Their string-literal types are erased when the program runs, so both are
  one record of two strings here.
\<close>

record Language =
  lang_id :: string
  lang_name :: string

definition getSupportedOutputLanguages :: "Language list" where
  "getSupportedOutputLanguages =
     [\<lparr>lang_id = ''en'', lang_name = ''English''\<rparr>,
      \<lparr>lang_id = ''es'', lang_name = ''Espa'' @ n_tilde @ ''ol''\<rparr>,
      \<lparr>lang_id = ''de'', lang_name = ''Deutsch''\<rparr>]"

definition getSupportedInputLanguages :: "Language list" where
  "getSupportedInputLanguages =
     [\<lparr>lang_id = ''auto'', lang_name = ''Auto''\<rparr>,
      \<lparr>lang_id = ''en'', lang_name = ''English''\<rparr>,
      \<lparr>lang_id = ''es'', lang_name = ''Espa'' @ n_tilde @ ''ol''\<rparr>,
      \<lparr>lang_id = ''de'', lang_name = ''Deutsch''\<rparr>]"

text \<open>
  The two lookups of the service, \<open>getSupportedInputLanguages().find(...)?.name\<close> and
  its counterpart on the output catalogue: the name of the first entry with the
  identifier, \<open>None\<close> (JavaScript's \<open>undefined\<close>) when there is none.
\<close>

abbreviation input_name :: "string \<Rightarrow> string option" where
  "input_name i \<equiv>
     map_option lang_name (find (\<lambda>lang. lang_id lang = i) getSupportedInputLanguages)"

abbreviation output_name :: "string \<Rightarrow> string option" where
  "output_name i \<equiv>
     map_option lang_name (find (\<lambda>lang. lang_id lang = i) getSupportedOutputLanguages)"

section \<open>The chat-completion interface of the client library\<close>

datatype js_error = Error string | TypeError | APIError string

datatype role = System | User | Assistant

record ChatMessage =
  role :: role
  content :: string

record ChatParams =
  messages :: "ChatMessage list"
  model :: string

record CompletionMessage =
  completion_content :: "string option"

record Choice =
  message :: CompletionMessage

record ChatCompletion =
  choices :: "Choice list"

record Groq =
  apiKey :: string

text \<open>
  \<open>groq.chat.completions.create\<close> is the one call that leaves the program. It is a
  parameter of the model: a transformer of the outside world \<^typ>\<open>'w\<close> that either
  rejects with an error (\<open>Inl\<close>) or resolves with a completion (\<open>Inr\<close>). The awaited
  promise is taken to settle.
\<close>

type_synonym 'w chat_create = "Groq \<Rightarrow> ChatParams \<Rightarrow> 'w \<Rightarrow> (js_error + ChatCompletion) \<times> 'w"

section \<open>Translation service (translate.server.ts)\<close>

text \<open>
  Module initialisation: \<open>process.env\<close> maps a variable to a string or to
  \<open>undefined\<close>. The top-level statement throws when the key is not a string; otherwise
  the module constant \<open>GROQ_API_KEY\<close> is bound.
\<close>

definition load_translate_server :: "(string \<rightharpoonup> string) \<Rightarrow> js_error + string" where
  "load_translate_server env =
     (case env ''GROQ_API_KEY'' of
        None \<Rightarrow> Inl (Error ''Missing env: GROQ_API_KEY'')
      | Some GROQ_API_KEY \<Rightarrow> Inr GROQ_API_KEY)"

text \<open>A template literal renders \<open>undefined\<close> as the text \<open>undefined\<close>.\<close>

definition template_str :: "string option \<Rightarrow> string" where
  "template_str v = (case v of None \<Rightarrow> ''undefined'' | Some s \<Rightarrow> s)"

text \<open>\<open>v || d\<close> on a value that is a string, \<open>null\<close> or \<open>undefined\<close>.\<close>

definition js_or :: "string option \<Rightarrow> string \<Rightarrow> string" where
  "js_or v d = (case v of None \<Rightarrow> d | Some s \<Rightarrow> if s = [] then d else s)"

definition system_prompt :: string where
  "system_prompt =
     ''You are an AI that translates text. You receive a text from the user. Do not answer, just translate the text. The original language is surrounded by `{{` and `}}`. You can also receive {{auto}} wich means that you have to detect the language. The language you translate to is surrounded by `[[` and `]]`.''"

text \<open>The fixed messages that precede the request's own message.\<close>

definition few_shot :: "ChatMessage list" where
  "few_shot =
     [\<lparr>role = System, content = system_prompt\<rparr>,
      \<lparr>role = User, content = ''Hola mundo {{Espa'' @ n_tilde @ ''ol}} [[English]]''\<rparr>,
      \<lparr>role = Assistant, content = ''Hello world''\<rparr>,
      \<lparr>role = User, content = ''How are you? {{Auto}} [[Deutsch]]''\<rparr>,
      \<lparr>role = Assistant, content = ''Wie geht es dir?''\<rparr>,
      \<lparr>role = User,
       content = ''Buen d'' @ i_acute @ ''a, como est'' @ a_acute @ ''s? {{Auto}} [[English]]''\<rparr>,
      \<lparr>role = Assistant, content = ''Good morning, how are you?''\<rparr>]"

text \<open>The argument object of \<open>create\<close>, from the two resolved names and the text.\<close>

definition completion_params :: "string option \<Rightarrow> string option \<Rightarrow> string \<Rightarrow> ChatParams" where
  "completion_params fromLanguage toLanguage inputText =
     \<lparr>messages = few_shot @
        [\<lparr>role = User,
          content = inputText @ '' {{'' @ template_str fromLanguage @ ''}} [[''
                      @ template_str toLanguage @ '']]''\<rparr>],
      model = ''llama3-70b-8192''\<rparr>"

text \<open>
  The body of the \<open>try\<close> block. An error (\<open>Inl\<close>) is a rejection of the awaited call
  or the \<open>TypeError\<close> of reading \<open>message\<close> from \<open>choices[0]\<close> when \<open>choices\<close> is
  empty.
\<close>

definition try_block ::
  "'w chat_create \<Rightarrow> Groq \<Rightarrow> string option \<Rightarrow> string option \<Rightarrow> string \<Rightarrow> 'w
     \<Rightarrow> (js_error + string) \<times> 'w" where
  "try_block create groq fromLanguage toLanguage inputText w =
     (case create groq (completion_params fromLanguage toLanguage inputText) w of
        (Inl e, w') \<Rightarrow> (Inl e, w')
      | (Inr result, w') \<Rightarrow>
          (case choices result of
             [] \<Rightarrow> (Inl TypeError, w')
           | c # _ \<Rightarrow> (Inr (js_or (completion_content (message c)) ''''), w')))"

text \<open>
  \<open>translateText\<close>, with the module constant and the external call as its first two
  arguments. The result is \<open>Inr\<close> of the returned string, or \<open>Inl\<close> of an error
  that leaves the function. The client is built before the \<open>try\<close> block; its
  constructor belongs to the client library, stores the key it is given, and is taken
  not to raise on a string.
\<close>

definition translateText ::
  "string \<Rightarrow> 'w chat_create \<Rightarrow> string \<Rightarrow> string \<Rightarrow> string \<Rightarrow> 'w \<Rightarrow> (js_error + string) \<times> 'w" where
  "translateText GROQ_API_KEY create fromLanguageId toLanguageId inputText w =
     (if fromLanguageId = toLanguageId then (Inr inputText, w)
      else
        let groq = \<lparr>apiKey = GROQ_API_KEY\<rparr>;
            fromLanguage = map_option lang_name
              (find (\<lambda>lang. lang_id lang = fromLanguageId) getSupportedInputLanguages);
            toLanguage = map_option lang_name
              (find (\<lambda>lang. lang_id lang = toLanguageId) getSupportedOutputLanguages)
        in case try_block create groq fromLanguage toLanguage inputText w of
             (Inl error, w') \<Rightarrow> (Inr ''Error translating text'', w')
           | (Inr text, w') \<Rightarrow> (Inr text, w'))"

section \<open>Test doubles and the serving process\<close>

text \<open>
  A mocked external call: it answers by a fixed response function and appends the
  client and the request it was given to a log, which is the outside world.
\<close>

definition mock_create ::
  "(Groq \<Rightarrow> ChatParams \<Rightarrow> js_error + ChatCompletion) \<Rightarrow> (Groq \<times> ChatParams) list chat_create" where
  "mock_create respond groq params log = (respond groq params, log @ [(groq, params)])"

definition completion_of :: "string option \<Rightarrow> ChatCompletion" where
  "completion_of c = \<lparr>choices = [\<lparr>message = \<lparr>completion_content = c\<rparr>\<rparr>]\<rparr>"

definition always_reply :: "string option \<Rightarrow> Groq \<Rightarrow> ChatParams \<Rightarrow> js_error + ChatCompletion" where
  "always_reply c groq params = Inr (completion_of c)"

definition always_reject :: "js_error \<Rightarrow> Groq \<Rightarrow> ChatParams \<Rightarrow> js_error + ChatCompletion" where
  "always_reject e groq params = Inl e"

text \<open>
  The process: the module is loaded once, then the requests are served in order. A
  request is the triple of source identifier, target identifier and text. When loading
  throws, \<open>translateText\<close> is never bound and no request is served.
\<close>

fun serve :: "string \<Rightarrow> 'w chat_create \<Rightarrow> (string \<times> string \<times> string) list \<Rightarrow> 'w
    \<Rightarrow> (js_error + string) list \<times> 'w" where
  "serve key create [] w = ([], w)"
| "serve key create ((src, tgt, txt) # rs) w =
     (case translateText key create src tgt txt w of
        (r, w') \<Rightarrow> (case serve key create rs w' of (out, w'') \<Rightarrow> (r # out, w'')))"

definition run_process ::
  "(string \<rightharpoonup> string) \<Rightarrow> 'w chat_create \<Rightarrow> (string \<times> string \<times> string) list \<Rightarrow> 'w
     \<Rightarrow> (js_error + (js_error + string) list) \<times> 'w" where
  "run_process env create rs w =
     (case load_translate_server env of
        Inl e \<Rightarrow> (Inl e, w)
      | Inr key \<Rightarrow> (case serve key create rs w of (out, w') \<Rightarrow> (Inr out, w')))"

section \<open>Registry facts\<close>

lemma input_ids: "map lang_id getSupportedInputLanguages = [''auto'', ''en'', ''es'', ''de'']"
  by (simp add: getSupportedInputLanguages_def)

lemma output_ids: "map lang_id getSupportedOutputLanguages = [''en'', ''es'', ''de'']"
  by (simp add: getSupportedOutputLanguages_def)

text \<open>
  C5. The input catalogue has exactly four entries with the identifiers auto, en, es, de
  in this order; the output catalogue has exactly three entries with the identifiers
  en, es, de in this order; every output identifier is an input identifier, and auto is
  not an output identifier.
\<close>

theorem C5_catalogues:
  "length getSupportedInputLanguages = 4
   \<and> map lang_id getSupportedInputLanguages = [''auto'', ''en'', ''es'', ''de'']
   \<and> length getSupportedOutputLanguages = 3
   \<and> map lang_id getSupportedOutputLanguages = [''en'', ''es'', ''de'']
   \<and> set (map lang_id getSupportedOutputLanguages) \<subseteq> set (map lang_id getSupportedInputLanguages)
   \<and> ''auto'' \<notin> set (map lang_id getSupportedOutputLanguages)"
  by (simp add: getSupportedInputLanguages_def getSupportedOutputLanguages_def)

lemma find_registered:
  "i \<in> set (map lang_id ls) \<Longrightarrow> \<exists>l. find (\<lambda>lang. lang_id lang = i) ls = Some l"
  by (cases "find (\<lambda>lang. lang_id lang = i) ls") (auto simp add: find_None_iff)

lemma input_name_miss:
  "i \<notin> set (map lang_id getSupportedInputLanguages) \<Longrightarrow> input_name i = None"
  by (auto simp add: find_None_iff)

lemma output_name_miss:
  "i \<notin> set (map lang_id getSupportedOutputLanguages) \<Longrightarrow> output_name i = None"
  by (auto simp add: find_None_iff)

section \<open>The identity short-circuit\<close>

text \<open>
  C1. For every language identifier L and every text t, translateText(L, L, t) returns t
  unchanged, whatever the external call would do, and leaves the outside world as it
  was: no external call is made.
\<close>

theorem C1_identity:
  "translateText key create L L t w = (Inr t, w)"
  by (simp add: translateText_def)

section \<open>Shape of a call with different identifiers\<close>

lemma translateText_differ:
  "fromLanguageId \<noteq> toLanguageId \<Longrightarrow>
   translateText key create fromLanguageId toLanguageId inputText w =
     (case try_block create \<lparr>apiKey = key\<rparr> (input_name fromLanguageId) (output_name toLanguageId) inputText w of
        (Inl error, w') \<Rightarrow> (Inr ''Error translating text'', w')
      | (Inr text, w') \<Rightarrow> (Inr text, w'))"
  by (simp add: translateText_def)

lemma translateText_returns:
  "\<exists>s. fst (translateText key create fromLanguageId toLanguageId inputText w) = Inr s"
  by (simp add: translateText_def Let_def split: prod.split sum.split)

lemma translateText_world:
  "snd (translateText key create fromLanguageId toLanguageId inputText w) =
     (if fromLanguageId = toLanguageId then w
      else snd (create \<lparr>apiKey = key\<rparr>
             (completion_params (input_name fromLanguageId) (output_name toLanguageId) inputText) w))"
  by (simp add: translateText_def try_block_def Let_def split: prod.split sum.split list.split)

lemma translateText_mock_log:
  "fromLanguageId \<noteq> toLanguageId \<Longrightarrow>
   snd (translateText key (mock_create respond) fromLanguageId toLanguageId inputText log) =
     log @ [(\<lparr>apiKey = key\<rparr>,
             completion_params (input_name fromLanguageId) (output_name toLanguageId) inputText)]"
  by (simp add: translateText_world mock_create_def)

lemma last_few_shot: "role (last few_shot) = Assistant"
  by (simp add: few_shot_def)

lemma translateText_no_choice:
  assumes "fromLanguageId \<noteq> toLanguageId"
    and "create \<lparr>apiKey = key\<rparr>
           (completion_params (input_name fromLanguageId) (output_name toLanguageId) inputText) w
         = (Inr result, w')"
    and "choices result = []"
  shows "fst (translateText key create fromLanguageId toLanguageId inputText w)
           = Inr ''Error translating text''"
  using assms by (simp add: translateText_differ try_block_def)

section \<open>Failure policy\<close>

text \<open>
  C2. When the source and target identifiers differ and the external chat-completion
  call raises an error, whatever the error, translateText returns the fixed string
  "Error translating text": the result is a returned string (\<open>Inr\<close>), so no exception
  leaves the function.
\<close>

theorem C2_failure:
  assumes "fromLanguageId \<noteq> toLanguageId"
    and "fst (create \<lparr>apiKey = key\<rparr>
           (completion_params (input_name fromLanguageId) (output_name toLanguageId) inputText) w) = Inl e"
  shows "fst (translateText key create fromLanguageId toLanguageId inputText w)
           = Inr ''Error translating text''"
  using assms
  by (auto simp add: translateText_differ try_block_def split: prod.split sum.split list.split)

text \<open>
  The claim C2 at a concrete input: a mocked call that rejects every request with a
  rate-limit error.
\<close>

theorem C2_failure_witness:
  "''en'' \<noteq> ''de''
   \<and> fst (mock_create (always_reject (APIError ''429 Too Many Requests'')) \<lparr>apiKey = ''k''\<rparr>
            (completion_params (input_name ''en'') (output_name ''de'') ''Good morning'') [])
       = Inl (APIError ''429 Too Many Requests'')
   \<and> fst (translateText ''k'' (mock_create (always_reject (APIError ''429 Too Many Requests'')))
            ''en'' ''de'' ''Good morning'' [])
       = Inr ''Error translating text''"
proof -
  have a: "''en'' \<noteq> ''de''" by simp
  have b: "fst (mock_create (always_reject (APIError ''429 Too Many Requests'')) \<lparr>apiKey = ''k''\<rparr>
            (completion_params (input_name ''en'') (output_name ''de'') ''Good morning'') [])
       = Inl (APIError ''429 Too Many Requests'')"
    by (simp add: mock_create_def always_reject_def)
  show ?thesis
    using a b
      C2_failure [where fromLanguageId = "''en''" and toLanguageId = "''de''" and key = "''k''"
        and create = "mock_create (always_reject (APIError ''429 Too Many Requests''))"
        and inputText = "''Good morning''" and w = "[]" and e = "APIError ''429 Too Many Requests''"]
    by simp
qed

section \<open>Prompt construction\<close>

text \<open>
  C3. For every pair of a registered source identifier and a registered target
  identifier that differ, and every text t, translateText submits exactly one request;
  its message sequence is the fixed prefix, which ends with an assistant message,
  followed by one user message, and that message is t unmodified, then the resolved
  source name between {{ and }}, then the resolved target name between [[ and ]].
\<close>

theorem C3_final_message:
  assumes "fromLanguageId \<noteq> toLanguageId"
    and "fromLanguageId \<in> set (map lang_id getSupportedInputLanguages)"
    and "toLanguageId \<in> set (map lang_id getSupportedOutputLanguages)"
  shows "\<exists>src tgt.
           find (\<lambda>lang. lang_id lang = fromLanguageId) getSupportedInputLanguages = Some src
         \<and> find (\<lambda>lang. lang_id lang = toLanguageId) getSupportedOutputLanguages = Some tgt
         \<and> snd (translateText key (mock_create respond) fromLanguageId toLanguageId inputText log) =
             log @ [(\<lparr>apiKey = key\<rparr>,
                     \<lparr>messages = few_shot @
                        [\<lparr>role = User,
                          content = inputText @ '' {{'' @ lang_name src @ ''}} [[''
                                      @ lang_name tgt @ '']]''\<rparr>],
                      model = ''llama3-70b-8192''\<rparr>)]
         \<and> role (last few_shot) = Assistant"
proof -
  obtain src where s: "find (\<lambda>lang. lang_id lang = fromLanguageId) getSupportedInputLanguages = Some src"
    using find_registered [OF assms(2)] by blast
  obtain tgt where t: "find (\<lambda>lang. lang_id lang = toLanguageId) getSupportedOutputLanguages = Some tgt"
    using find_registered [OF assms(3)] by blast
  have "snd (translateText key (mock_create respond) fromLanguageId toLanguageId inputText log) =
             log @ [(\<lparr>apiKey = key\<rparr>,
                     \<lparr>messages = few_shot @
                        [\<lparr>role = User,
                          content = inputText @ '' {{'' @ lang_name src @ ''}} [[''
                                      @ lang_name tgt @ '']]''\<rparr>],
                      model = ''llama3-70b-8192''\<rparr>)]"
    using assms(1) s t
    by (simp add: translateText_mock_log completion_params_def template_str_def)
  with s t last_few_shot show ?thesis by blast
qed

theorem C3_final_message_witness:
  "''auto'' \<noteq> ''de''
   \<and> ''auto'' \<in> set (map lang_id getSupportedInputLanguages)
   \<and> ''de'' \<in> set (map lang_id getSupportedOutputLanguages)
   \<and> snd (translateText ''k'' (mock_create (always_reply (Some ''Wie geht es dir?'')))
            ''auto'' ''de'' ''How are you?'' []) =
         [(\<lparr>apiKey = ''k''\<rparr>,
           \<lparr>messages = few_shot @
              [\<lparr>role = User, content = ''How are you? {{Auto}} [[Deutsch]]''\<rparr>],
            model = ''llama3-70b-8192''\<rparr>)]"
proof -
  have a: "''auto'' \<noteq> ''de''" by simp
  have b: "''auto'' \<in> set (map lang_id getSupportedInputLanguages)"
    by (simp add: input_ids)
  have c: "''de'' \<in> set (map lang_id getSupportedOutputLanguages)"
    by (simp add: output_ids)
  obtain src tgt where
    s: "find (\<lambda>lang. lang_id lang = ''auto'') getSupportedInputLanguages = Some src" and
    t: "find (\<lambda>lang. lang_id lang = ''de'') getSupportedOutputLanguages = Some tgt" and
    l: "snd (translateText ''k'' (mock_create (always_reply (Some ''Wie geht es dir?'')))
              ''auto'' ''de'' ''How are you?'' []) =
          [] @ [(\<lparr>apiKey = ''k''\<rparr>,
                 \<lparr>messages = few_shot @
                    [\<lparr>role = User,
                      content = ''How are you?'' @ '' {{'' @ lang_name src @ ''}} [[''
                                  @ lang_name tgt @ '']]''\<rparr>],
                  model = ''llama3-70b-8192''\<rparr>)]"
    using C3_final_message [OF a b c, where key = "''k''"
        and respond = "always_reply (Some ''Wie geht es dir?'')"
        and inputText = "''How are you?''" and log = "[]"]
    by blast
  have "lang_name src = ''Auto''"
    using s by (auto simp add: getSupportedInputLanguages_def)
  moreover have "lang_name tgt = ''Deutsch''"
    using t by (auto simp add: getSupportedOutputLanguages_def)
  ultimately show ?thesis
    using a b c l by simp
qed

text \<open>
  C4, as the code has it. When the source or the target identifier is absent from its
  catalogue (and the two differ), the lookup yields \<open>undefined\<close>, the template literal
  puts the text "undefined" between the markers of the missing name, and the request is
  still issued: the call returns a string and does not fail.
\<close>

theorem C4_lookup_miss:
  assumes "fromLanguageId \<noteq> toLanguageId"
  shows "(fromLanguageId \<notin> set (map lang_id getSupportedInputLanguages) \<longrightarrow>
           snd (translateText key (mock_create respond) fromLanguageId toLanguageId inputText log) =
             log @ [(\<lparr>apiKey = key\<rparr>,
                     \<lparr>messages = few_shot @
                        [\<lparr>role = User,
                          content = inputText @ '' {{undefined}} [[''
                                      @ template_str (output_name toLanguageId) @ '']]''\<rparr>],
                      model = ''llama3-70b-8192''\<rparr>)])
       \<and> (toLanguageId \<notin> set (map lang_id getSupportedOutputLanguages) \<longrightarrow>
           snd (translateText key (mock_create respond) fromLanguageId toLanguageId inputText log) =
             log @ [(\<lparr>apiKey = key\<rparr>,
                     \<lparr>messages = few_shot @
                        [\<lparr>role = User,
                          content = inputText @ '' {{'' @ template_str (input_name fromLanguageId)
                                      @ ''}} [[undefined]]''\<rparr>],
                      model = ''llama3-70b-8192''\<rparr>)])
       \<and> (\<exists>s. fst (translateText key (mock_create respond) fromLanguageId toLanguageId inputText log)
                = Inr s)"
proof (intro conjI impI)
  assume "fromLanguageId \<notin> set (map lang_id getSupportedInputLanguages)"
  then have "input_name fromLanguageId = None" by (rule input_name_miss)
  then show "snd (translateText key (mock_create respond) fromLanguageId toLanguageId inputText log) =
             log @ [(\<lparr>apiKey = key\<rparr>,
                     \<lparr>messages = few_shot @
                        [\<lparr>role = User,
                          content = inputText @ '' {{undefined}} [[''
                                      @ template_str (output_name toLanguageId) @ '']]''\<rparr>],
                      model = ''llama3-70b-8192''\<rparr>)]"
    using assms by (simp add: translateText_mock_log completion_params_def template_str_def)
next
  assume "toLanguageId \<notin> set (map lang_id getSupportedOutputLanguages)"
  then have "output_name toLanguageId = None" by (rule output_name_miss)
  then show "snd (translateText key (mock_create respond) fromLanguageId toLanguageId inputText log) =
             log @ [(\<lparr>apiKey = key\<rparr>,
                     \<lparr>messages = few_shot @
                        [\<lparr>role = User,
                          content = inputText @ '' {{'' @ template_str (input_name fromLanguageId)
                                      @ ''}} [[undefined]]''\<rparr>],
                      model = ''llama3-70b-8192''\<rparr>)]"
    using assms by (simp add: translateText_mock_log completion_params_def template_str_def)
next
  show "\<exists>s. fst (translateText key (mock_create respond) fromLanguageId toLanguageId inputText log)
                = Inr s"
    by (rule translateText_returns)
qed

text \<open>
  The amended claim C4 at two concrete inputs: an unregistered source, and an
  unregistered target.
\<close>

theorem C4_lookup_miss_witness:
  "''fr'' \<noteq> ''en''
   \<and> ''fr'' \<notin> set (map lang_id getSupportedInputLanguages)
   \<and> snd (translateText ''k'' (mock_create (always_reply (Some ''Hello''))) ''fr'' ''en'' ''Salut'' [])
       = [(\<lparr>apiKey = ''k''\<rparr>,
           \<lparr>messages = few_shot @
              [\<lparr>role = User, content = ''Salut {{undefined}} [[English]]''\<rparr>],
            model = ''llama3-70b-8192''\<rparr>)]
   \<and> ''en'' \<noteq> ''fr''
   \<and> ''fr'' \<notin> set (map lang_id getSupportedOutputLanguages)
   \<and> snd (translateText ''k'' (mock_create (always_reply (Some ''Salut''))) ''en'' ''fr'' ''Hello'' [])
       = [(\<lparr>apiKey = ''k''\<rparr>,
           \<lparr>messages = few_shot @
              [\<lparr>role = User, content = ''Hello {{English}} [[undefined]]''\<rparr>],
            model = ''llama3-70b-8192''\<rparr>)]"
proof -
  have a: "''fr'' \<noteq> ''en''" and a': "''en'' \<noteq> ''fr''" by simp_all
  have b: "''fr'' \<notin> set (map lang_id getSupportedInputLanguages)"
    by (simp add: input_ids)
  have c: "''fr'' \<notin> set (map lang_id getSupportedOutputLanguages)"
    by (simp add: output_ids)
  have d: "output_name ''en'' = Some ''English''"
    by (simp add: getSupportedOutputLanguages_def)
  have e: "input_name ''en'' = Some ''English''"
    by (simp add: getSupportedInputLanguages_def)
  show ?thesis
    using a a' b c
      C4_lookup_miss [OF a, of "''k''" "always_reply (Some ''Hello'')" "''Salut''" "[]"]
      C4_lookup_miss [OF a', of "''k''" "always_reply (Some ''Salut'')" "''Hello''" "[]"]
    by (simp add: d e template_str_def)
qed

text \<open>
  C4 as stated fails: for the unregistered source identifier fr, the final user message
  of the request carries "undefined" between the source markers, not the empty string.
\<close>

theorem C4_empty_name_counterexample:
  "snd (translateText ''k'' (mock_create (always_reply (Some ''Hello''))) ''fr'' ''en'' ''Salut'' [])
     = [(\<lparr>apiKey = ''k''\<rparr>,
         \<lparr>messages = few_shot @
            [\<lparr>role = User, content = ''Salut {{undefined}} [[English]]''\<rparr>],
          model = ''llama3-70b-8192''\<rparr>)]
   \<and> snd (translateText ''k'' (mock_create (always_reply (Some ''Hello''))) ''fr'' ''en'' ''Salut'' [])
     \<noteq> [(\<lparr>apiKey = ''k''\<rparr>,
         \<lparr>messages = few_shot @
            [\<lparr>role = User, content = ''Salut {{}} [[English]]''\<rparr>],
          model = ''llama3-70b-8192''\<rparr>)]"
  by (simp add: translateText_def try_block_def mock_create_def always_reply_def completion_of_def
      completion_params_def template_str_def getSupportedInputLanguages_def
      getSupportedOutputLanguages_def)

section \<open>Result extraction\<close>

text \<open>
  C6. When the source and target identifiers differ and the external call resolves with
  a completion that has a first choice, translateText returns the content of that
  choice's message; when the content is absent the result is the empty string, and an
  empty content is returned as the empty string it is. The result is always a string.
\<close>

theorem C6_first_choice:
  assumes "fromLanguageId \<noteq> toLanguageId"
    and "create \<lparr>apiKey = key\<rparr>
           (completion_params (input_name fromLanguageId) (output_name toLanguageId) inputText) w
         = (Inr result, w')"
    and "choices result = c # cs"
  shows "fst (translateText key create fromLanguageId toLanguageId inputText w) =
           Inr (case completion_content (message c) of None \<Rightarrow> [] | Some s \<Rightarrow> s)"
  using assms
  by (simp add: translateText_differ try_block_def js_or_def split: option.split)

text \<open>
  The claim C6 at two concrete inputs: a completion with the content "Guten Morgen" and
  a completion with no content.
\<close>

theorem C6_first_choice_witness:
  "''en'' \<noteq> ''de''
   \<and> mock_create (always_reply (Some ''Guten Morgen'')) \<lparr>apiKey = ''k''\<rparr>
        (completion_params (input_name ''en'') (output_name ''de'') ''Good morning'') []
       = (Inr (completion_of (Some ''Guten Morgen'')),
          [(\<lparr>apiKey = ''k''\<rparr>,
            completion_params (input_name ''en'') (output_name ''de'') ''Good morning'')])
   \<and> choices (completion_of (Some ''Guten Morgen''))
       = [\<lparr>message = \<lparr>completion_content = Some ''Guten Morgen''\<rparr>\<rparr>]
   \<and> fst (translateText ''k'' (mock_create (always_reply (Some ''Guten Morgen'')))
            ''en'' ''de'' ''Good morning'' []) = Inr ''Guten Morgen''
   \<and> mock_create (always_reply None) \<lparr>apiKey = ''k''\<rparr>
        (completion_params (input_name ''en'') (output_name ''de'') ''Good morning'') []
       = (Inr (completion_of None),
          [(\<lparr>apiKey = ''k''\<rparr>,
            completion_params (input_name ''en'') (output_name ''de'') ''Good morning'')])
   \<and> choices (completion_of None) = [\<lparr>message = \<lparr>completion_content = None\<rparr>\<rparr>]
   \<and> fst (translateText ''k'' (mock_create (always_reply None))
            ''en'' ''de'' ''Good morning'' []) = Inr []"
proof -
  have a: "''en'' \<noteq> ''de''" by simp
  have b: "mock_create (always_reply c) \<lparr>apiKey = ''k''\<rparr>
        (completion_params (input_name ''en'') (output_name ''de'') ''Good morning'') []
       = (Inr (completion_of c),
          [(\<lparr>apiKey = ''k''\<rparr>,
            completion_params (input_name ''en'') (output_name ''de'') ''Good morning'')])" for c
    by (simp add: mock_create_def always_reply_def)
  have c: "choices (completion_of c) = [\<lparr>message = \<lparr>completion_content = c\<rparr>\<rparr>]" for c
    by (simp add: completion_of_def)
  show ?thesis
    using a b c
      C6_first_choice [where fromLanguageId = "''en''" and toLanguageId = "''de''" and key = "''k''"
        and create = "mock_create (always_reply (Some ''Guten Morgen''))"
        and inputText = "''Good morning''" and w = "[]"
        and result = "completion_of (Some ''Guten Morgen'')"
        and c = "\<lparr>message = \<lparr>completion_content = Some ''Guten Morgen''\<rparr>\<rparr>" and cs = "[]"]
      C6_first_choice [where fromLanguageId = "''en''" and toLanguageId = "''de''" and key = "''k''"
        and create = "mock_create (always_reply None)"
        and inputText = "''Good morning''" and w = "[]"
        and result = "completion_of None"
        and c = "\<lparr>message = \<lparr>completion_content = None\<rparr>\<rparr>" and cs = "[]"]
    by simp
qed

text \<open>
  C7. translateText("es", "en", "Hola mundo") against a mocked call that answers
  "Hello world" returns "Hello world", and the one request it submits ends with the
  user message "Hola mundo {{Espanol}} [[English]]", the n of the name being the letter
  with the tilde (\<open>n_tilde\<close>).
\<close>

theorem C7_scenario:
  "translateText key (mock_create (always_reply (Some ''Hello world'')))
     ''es'' ''en'' ''Hola mundo'' []
   = (Inr ''Hello world'',
      [(\<lparr>apiKey = key\<rparr>,
        \<lparr>messages = few_shot @
           [\<lparr>role = User, content = ''Hola mundo {{Espa'' @ n_tilde @ ''ol}} [[English]]''\<rparr>],
         model = ''llama3-70b-8192''\<rparr>)])"
  by (simp add: translateText_def try_block_def mock_create_def always_reply_def completion_of_def js_or_def
      completion_params_def template_str_def getSupportedInputLanguages_def
      getSupportedOutputLanguages_def)

section \<open>Credential and start-up\<close>

lemma serve_returns:
  "length (fst (serve key create rs w)) = length rs
   \<and> (\<forall>r \<in> set (fst (serve key create rs w)). \<exists>s. r = Inr s)"
proof (induction rs arbitrary: w)
  case Nil
  show ?case by simp
next
  case (Cons r rs)
  obtain a b c where r: "r = (a, b, c)" by (cases r) auto
  obtain x w' where t: "translateText key create a b c w = (x, w')"
    by (cases "translateText key create a b c w") auto
  have "\<exists>s. x = Inr s"
    using translateText_returns [of key create a b c w] t by simp
  then show ?case
    using Cons.IH [of w'] r t by (auto split: prod.split)
qed

text \<open>
  C8. When GROQ_API_KEY is absent from the environment, loading the module fails with
  "Missing env: GROQ_API_KEY" whatever the requests are, none of them is served and the
  outside world is untouched. When it is present, the module loads and every request is
  answered with a string: no request ends in an error.
\<close>

theorem C8_credential:
  "(env ''GROQ_API_KEY'' = None \<longrightarrow>
      run_process env create rs w = (Inl (Error ''Missing env: GROQ_API_KEY''), w))
   \<and> (env ''GROQ_API_KEY'' = Some k \<longrightarrow>
      (\<exists>out. fst (run_process env create rs w) = Inr out
         \<and> out = fst (serve k create rs w)
         \<and> length out = length rs
         \<and> (\<forall>r \<in> set out. \<exists>s. r = Inr s)))"
  using serve_returns [of k create rs w]
  by (auto simp add: run_process_def load_translate_server_def split: prod.split)

text \<open>
  The claim C8 at two concrete environments: the empty one, and one that holds a
  key.
\<close>

theorem C8_credential_witness:
  "Map.empty ''GROQ_API_KEY'' = (None :: string option)
   \<and> run_process Map.empty (mock_create (always_reply (Some ''Hello world'')))
        [(''es'', ''en'', ''Hola mundo'')] []
       = (Inl (Error ''Missing env: GROQ_API_KEY''), [])
   \<and> [''GROQ_API_KEY'' \<mapsto> ''gsk_test''] ''GROQ_API_KEY'' = Some ''gsk_test''
   \<and> fst (run_process [''GROQ_API_KEY'' \<mapsto> ''gsk_test'']
            (mock_create (always_reply (Some ''Hello world'')))
            [(''es'', ''en'', ''Hola mundo'')] [])
       = Inr [Inr ''Hello world'']"
proof -
  have s: "fst (serve ''gsk_test'' (mock_create (always_reply (Some ''Hello world'')))
             [(''es'', ''en'', ''Hola mundo'')] []) = [Inr ''Hello world'']"
    by (simp add: translateText_def try_block_def mock_create_def always_reply_def
        completion_of_def js_or_def)
  have n: "Map.empty ''GROQ_API_KEY'' = (None :: string option)" by simp
  have p: "[''GROQ_API_KEY'' \<mapsto> ''gsk_test''] ''GROQ_API_KEY'' = Some ''gsk_test''" by simp
  have r1: "run_process Map.empty (mock_create (always_reply (Some ''Hello world'')))
        [(''es'', ''en'', ''Hola mundo'')] []
       = (Inl (Error ''Missing env: GROQ_API_KEY''), [])"
    using n
      C8_credential [where env = Map.empty
        and create = "mock_create (always_reply (Some ''Hello world''))"
        and rs = "[(''es'', ''en'', ''Hola mundo'')]" and w = "[]" and k = "''gsk_test''"]
    by blast
  have "fst (run_process [''GROQ_API_KEY'' \<mapsto> ''gsk_test'']
            (mock_create (always_reply (Some ''Hello world'')))
            [(''es'', ''en'', ''Hola mundo'')] [])
       = Inr (fst (serve ''gsk_test'' (mock_create (always_reply (Some ''Hello world'')))
             [(''es'', ''en'', ''Hola mundo'')] []))"
    using p
      C8_credential [where env = "[''GROQ_API_KEY'' \<mapsto> ''gsk_test'']"
        and create = "mock_create (always_reply (Some ''Hello world''))"
        and rs = "[(''es'', ''en'', ''Hola mundo'')]" and w = "[]" and k = "''gsk_test''"]
    by blast
  then have r2: "fst (run_process [''GROQ_API_KEY'' \<mapsto> ''gsk_test'']
            (mock_create (always_reply (Some ''Hello world'')))
            [(''es'', ''en'', ''Hola mundo'')] [])
       = Inr [Inr ''Hello world'']"
    by (simp only: s)
  show ?thesis
    using n p r1 r2 by (intro conjI)
qed

section \<open>Repeatability and totality\<close>

text \<open>
  C9. When the response of the external call is a function of the client and the
  request alone, a second call of translateText with the same arguments, made in the
  world the first call left, returns the same result as the first. The function keeps
  no state: the world after a call is the world the external call left, or the
  unchanged world when the identifiers are equal.
\<close>

theorem C9_repeatable:
  assumes "\<forall>groq params v. fst (create groq params v) = respond groq params"
  shows "fst (translateText key create fromLanguageId toLanguageId inputText
               (snd (translateText key create fromLanguageId toLanguageId inputText w)))
         = fst (translateText key create fromLanguageId toLanguageId inputText w)
       \<and> snd (translateText key create fromLanguageId toLanguageId inputText w) =
           (if fromLanguageId = toLanguageId then w
            else snd (create \<lparr>apiKey = key\<rparr>
                   (completion_params (input_name fromLanguageId) (output_name toLanguageId) inputText) w))"
proof -
  have "fst (translateText key create fromLanguageId toLanguageId inputText v)
        = fst (translateText key create fromLanguageId toLanguageId inputText w)" for v
  proof (cases "fromLanguageId = toLanguageId")
    case True
    then show ?thesis by (simp add: translateText_def)
  next
    case False
    let ?p = "completion_params (input_name fromLanguageId) (output_name toLanguageId) inputText"
    have "fst (create \<lparr>apiKey = key\<rparr> ?p v) = fst (create \<lparr>apiKey = key\<rparr> ?p w)"
      using assms by simp
    then show ?thesis
      using False
      by (auto simp add: translateText_differ try_block_def split: prod.split sum.split list.split)
  qed
  then show ?thesis by (simp add: translateText_world)
qed

text \<open>
  The claim C9 at a concrete input, with the mocked call.
\<close>

theorem C9_repeatable_witness:
  "(\<forall>groq params v. fst (mock_create (always_reply (Some ''Guten Morgen'')) groq params v)
        = always_reply (Some ''Guten Morgen'') groq params)
   \<and> fst (translateText ''k'' (mock_create (always_reply (Some ''Guten Morgen'')))
            ''en'' ''de'' ''Good morning''
            (snd (translateText ''k'' (mock_create (always_reply (Some ''Guten Morgen'')))
                    ''en'' ''de'' ''Good morning'' [])))
       = fst (translateText ''k'' (mock_create (always_reply (Some ''Guten Morgen'')))
                ''en'' ''de'' ''Good morning'' [])"
proof -
  have a: "\<forall>groq params v. fst (mock_create (always_reply (Some ''Guten Morgen'')) groq params v)
        = always_reply (Some ''Guten Morgen'') groq params"
    by (simp add: mock_create_def)
  have "fst (translateText ''k'' (mock_create (always_reply (Some ''Guten Morgen'')))
            ''en'' ''de'' ''Good morning''
            (snd (translateText ''k'' (mock_create (always_reply (Some ''Guten Morgen'')))
                    ''en'' ''de'' ''Good morning'' [])))
       = fst (translateText ''k'' (mock_create (always_reply (Some ''Guten Morgen'')))
                ''en'' ''de'' ''Good morning'' [])"
    using C9_repeatable [where create = "mock_create (always_reply (Some ''Guten Morgen''))"
        and respond = "always_reply (Some ''Guten Morgen'')" and key = "''k''"
        and fromLanguageId = "''en''" and toLanguageId = "''de''"
        and inputText = "''Good morning''" and w = "[]", OF a]
    by (rule conjunct1)
  with a show ?thesis by (rule conjI)
qed

text \<open>
  C10. translateText is total at its boundary: for every key, external call, pair of
  identifiers (registered or not), text and world, it returns a string and raises
  nothing.
\<close>

theorem C10_total:
  "\<exists>s. fst (translateText key create fromLanguageId toLanguageId inputText w) = Inr s"
  by (rule translateText_returns)

end
